theory Spec2Isabelle
  imports Main "HOL-Library.Sublist"
begin

section \<open>Strings as the worker's JavaScript uses them\<close>

text \<open>
  Every string the worker inspects is a request URL, a header value or the output of
  \<^verbatim>\<open>atob\<close>: a sequence of code units below 256, which is what \<^typ>\<open>string\<close> holds.
  The three search methods keep their JavaScript names and argument order
  (\<^verbatim>\<open>s.startsWith(p)\<close>, \<^verbatim>\<open>s.endsWith(p)\<close>, \<^verbatim>\<open>s.includes(p)\<close>).
\<close>

definition startsWith :: "string \<Rightarrow> string \<Rightarrow> bool" where
  "startsWith s p = prefix p s"

definition endsWith :: "string \<Rightarrow> string \<Rightarrow> bool" where
  "endsWith s p = suffix p s"

fun includesStr :: "string \<Rightarrow> string \<Rightarrow> bool" where
  "includesStr [] p = (p = [])"
| "includesStr (c # cs) p = (prefix p (c # cs) \<or> includesStr cs p)"

text \<open>\<^verbatim>\<open>s.split(sep)\<close> for a one-character separator: never empty, \<^verbatim>\<open>"".split("-")\<close> is \<^verbatim>\<open>[""]\<close>.\<close>

fun split :: "char \<Rightarrow> string \<Rightarrow> string list" where
  "split sep [] = [[]]"
| "split sep (c # cs) =
     (if c = sep then [] # split sep cs
      else (case split sep cs of
              [] \<Rightarrow> [[c]]
            | p # ps \<Rightarrow> (c # p) # ps))"

subsection \<open>\<^verbatim>\<open>parseInt\<close> with no radix argument\<close>

text \<open>
  ECMAScript \<^verbatim>\<open>parseInt(string)\<close>: leading white space is dropped, a sign is read, a
  \<^verbatim>\<open>0x\<close>/\<^verbatim>\<open>0X\<close> prefix selects radix 16, the longest run of digits of the radix is the value,
  and everything after it is ignored. No digit at all gives \<^verbatim>\<open>NaN\<close>, which is \<open>None\<close> here.
  The value is an exact integer; the JavaScript number is the same below \<open>2^53\<close>.
\<close>

definition isStrWhiteSpaceChar :: "char \<Rightarrow> bool" where
  "isStrWhiteSpaceChar c =
     ((of_char c :: nat) \<in> {0x09, 0x0A, 0x0B, 0x0C, 0x0D, 0x20, 0xA0})"

definition digitValue :: "char \<Rightarrow> nat option" where
  "digitValue c =
     (let n = (of_char c :: nat) in
      if 48 \<le> n \<and> n \<le> 57 then Some (n - 48)
      else if 97 \<le> n \<and> n \<le> 122 then Some (n - 87)
      else if 65 \<le> n \<and> n \<le> 90 then Some (n - 55)
      else None)"

definition isRadixDigit :: "nat \<Rightarrow> char \<Rightarrow> bool" where
  "isRadixDigit R c = (case digitValue c of None \<Rightarrow> False | Some d \<Rightarrow> d < R)"

definition mathInt :: "nat \<Rightarrow> string \<Rightarrow> nat" where
  "mathInt R Z = foldl (\<lambda>acc c. acc * R + the (digitValue c)) 0 Z"

definition parseDigits :: "nat \<Rightarrow> string \<Rightarrow> nat option" where
  "parseDigits R S =
     (let Z = takeWhile (isRadixDigit R) S in
      if Z = [] then None else Some (mathInt R Z))"

definition parseInt :: "string \<Rightarrow> int option" where
  "parseInt str =
     (let S = dropWhile isStrWhiteSpaceChar str;
          sign = (if S \<noteq> [] \<and> hd S = CHR ''-'' then - 1 else (1::int));
          S1 = (if S \<noteq> [] \<and> (hd S = CHR ''+'' \<or> hd S = CHR ''-'') then tl S else S);
          hex = (startsWith S1 ''0x'' \<or> startsWith S1 ''0X'');
          R = (if hex then 16 else 10);
          S2 = (if hex then drop 2 S1 else S1)
      in map_option (\<lambda>n. sign * int n) (parseDigits R S2))"

subsection \<open>\<^verbatim>\<open>atob\<close>: forgiving base64 decoding\<close>

text \<open>
  \<^verbatim>\<open>atob\<close> throws on input that is not base64; the throw is the value \<open>None\<close>.
  ASCII white space is removed, one or two trailing \<^verbatim>\<open>=\<close> are removed from an input whose
  length is a multiple of four, a length of 1 modulo 4 or a character outside the alphabet
  fails, and left-over bits of the last group are discarded.
\<close>

definition isAsciiWhitespace :: "char \<Rightarrow> bool" where
  "isAsciiWhitespace c = ((of_char c :: nat) \<in> {0x09, 0x0A, 0x0C, 0x0D, 0x20})"

definition base64Value :: "char \<Rightarrow> nat option" where
  "base64Value c =
     (let n = (of_char c :: nat) in
      if 65 \<le> n \<and> n \<le> 90 then Some (n - 65)
      else if 97 \<le> n \<and> n \<le> 122 then Some (n - 71)
      else if 48 \<le> n \<and> n \<le> 57 then Some (n + 4)
      else if n = 43 then Some 62
      else if n = 47 then Some 63
      else None)"

definition stripPadding :: "string \<Rightarrow> string" where
  "stripPadding d =
     (if length d mod 4 = 0 then
        (if endsWith d ''=='' then butlast (butlast d)
         else if endsWith d ''='' then butlast d
         else d)
      else d)"

fun decodeSextets :: "nat list \<Rightarrow> string" where
  "decodeSextets (a # b # c # d # rest) =
     (let n = ((a * 64 + b) * 64 + c) * 64 + d in
      char_of (n div 65536) # char_of (n div 256 mod 256) # char_of (n mod 256)
        # decodeSextets rest)"
| "decodeSextets [a, b, c] =
     (let n = ((a * 64 + b) * 64 + c) div 4 in
      [char_of (n div 256), char_of (n mod 256)])"
| "decodeSextets [a, b] = [char_of ((a * 64 + b) div 16)]"
| "decodeSextets _ = []"

definition atob :: "string \<Rightarrow> string option" where
  "atob data =
     (let d = stripPadding (filter (\<lambda>c. \<not> isAsciiWhitespace c) data) in
      if length d mod 4 = 1 then None
      else if list_ex (\<lambda>c. base64Value c = None) d then None
      else Some (decodeSextets (map (\<lambda>c. the (base64Value c)) d)))"

section \<open>Token validator\<close>

text \<open>
  \<^verbatim>\<open>validateToken(token)\<close>. The header value may be absent (\<^verbatim>\<open>null\<close>, \<open>None\<close>); \<^verbatim>\<open>!token\<close>
  also holds for the empty string. \<^verbatim>\<open>Date.now()\<close> is the parameter \<open>now\<close>, in
  milliseconds. A comparison with \<^verbatim>\<open>NaN\<close> is false, and the \<^verbatim>\<open>catch\<close> returns false.
\<close>

definition maxAge :: int where
  "maxAge = 5 * 60 * 1000"

definition validateToken :: "string option \<Rightarrow> int \<Rightarrow> bool" where
  "validateToken token now =
     (case token of
        None \<Rightarrow> False
      | Some t \<Rightarrow>
          if t = [] then False
          else (case atob t of
                  None \<Rightarrow> False
                | Some decoded \<Rightarrow>
                    let parts = split CHR ''-'' decoded in
                    if length parts < 2 then False
                    else (case parseInt (parts ! 0) of
                            None \<Rightarrow> False
                          | Some timestamp \<Rightarrow>
                              now - timestamp < maxAge \<and> timestamp \<le> now + 1000)))"

section \<open>Requests, responses and the worker's location\<close>

text \<open>
  A \<^verbatim>\<open>Request\<close> as the worker reads it: \<^verbatim>\<open>url\<close>, \<^verbatim>\<open>method\<close> (the field \<open>httpMethod\<close>), \<^verbatim>\<open>destination\<close>, \<^verbatim>\<open>mode\<close> and the
  header list. \<^verbatim>\<open>Headers\<close> stores names byte-lowercased and \<^verbatim>\<open>get\<close> lowercases the name it
  is given, so the field \<open>headers\<close> is keyed by lowercased names; an absent header
  (\<^verbatim>\<open>null\<close>) is \<open>None\<close>.
\<close>

record request =
  url :: string
  httpMethod :: string
  destination :: string
  mode :: string
  headers :: "string \<rightharpoonup> string"

definition asciiLower :: "char \<Rightarrow> char" where
  "asciiLower c =
     (let n = (of_char c :: nat) in
      if 65 \<le> n \<and> n \<le> 90 then char_of (n + 32) else c)"

definition headersGet :: "request \<Rightarrow> string \<Rightarrow> string option" where
  "headersGet r name = headers r (map asciiLower name)"

text \<open>
  JavaScript truthiness of a value that is \<^verbatim>\<open>null\<close> or a string, and \<^verbatim>\<open>a || b\<close> on two such
  values.
\<close>

definition truthy :: "string option \<Rightarrow> bool" where
  "truthy v = (case v of None \<Rightarrow> False | Some s \<Rightarrow> s \<noteq> [])"

definition jsOr :: "string option \<Rightarrow> string option \<Rightarrow> string option" where
  "jsOr a b = (if truthy a then a else b)"

text \<open>
  A \<^verbatim>\<open>Response\<close>: status, status text, headers, body and \<^verbatim>\<open>type\<close>. \<^verbatim>\<open>new Response(body, init)\<close>
  has type \<^verbatim>\<open>default\<close> and an empty status text unless \<^verbatim>\<open>init\<close> gives one.
\<close>

record response =
  status :: nat
  statusText :: string
  respHeaders :: "(string \<times> string) list"
  body :: string
  respType :: string

definition ok :: "response \<Rightarrow> bool" where
  "ok resp = (200 \<le> status resp \<and> status resp \<le> 299)"

text \<open>\<^verbatim>\<open>self.location\<close>: the origin and the host name the worker is served from.\<close>

record location =
  origin :: string
  hostname :: string

section \<open>Configuration\<close>

definition CACHE_NAME :: string where
  "CACHE_NAME = ''image-protection-v11''"

definition STATIC_CACHE :: string where
  "STATIC_CACHE = ''static-v11''"

definition IMAGES_CACHE :: string where
  "IMAGES_CACHE = ''images-v11''"

definition STATIC_ASSETS :: "string list" where
  "STATIC_ASSETS =
     [''/'', ''/index.html'', ''/manifest.json'', ''/favicon.svg'', ''/apple-touch-icon.png'']"

definition ALLOWED_ORIGINS :: "string list" where
  "ALLOWED_ORIGINS =
     [''https://avinashbhorphotography.github.io'',
      ''https://www.abphotostudio.in'',
      ''http://localhost:8080'',
      ''http://localhost:5173'']"

section \<open>Access policy: \<^verbatim>\<open>isAuthenticated\<close>\<close>

definition isLocalhost :: "location \<Rightarrow> bool" where
  "isLocalhost loc =
     (hostname loc = ''localhost'' \<or> hostname loc = ''127.0.0.1''
      \<or> includesStr (hostname loc) ''localhost'')"

definition referer :: "request \<Rightarrow> string option" where
  "referer r = jsOr (headersGet r ''Referer'') (headersGet r ''referer'')"

definition userAgent :: "request \<Rightarrow> string" where
  "userAgent r =
     (case jsOr (headersGet r ''User-Agent'') (Some []) of None \<Rightarrow> [] | Some ua \<Rightarrow> ua)"

definition isDownloadAttempt :: "string \<Rightarrow> bool" where
  "isDownloadAttempt ua =
     (includesStr ua ''Wget'' \<or> includesStr ua ''curl'' \<or> includesStr ua ''Python''
      \<or> includesStr ua ''bot'' \<or> includesStr ua ''spider'' \<or> includesStr ua ''crawler''
      \<or> includesStr ua ''Postman'' \<or> includesStr ua ''HTTPie'')"

definition hasValidReferer :: "location \<Rightarrow> request \<Rightarrow> bool" where
  "hasValidReferer loc r =
     (case referer r of
        None \<Rightarrow> False
      | Some ref \<Rightarrow>
          ref \<noteq> [] \<and>
          (startsWith ref (origin loc) \<or> includesStr ref ''localhost''
           \<or> list_ex (\<lambda>allowed. startsWith ref allowed) ALLOWED_ORIGINS))"

definition hasValidAuth :: "int \<Rightarrow> request \<Rightarrow> bool" where
  "hasValidAuth now r =
     (headersGet r ''X-Image-Auth'' = Some ''protected''
      \<and> truthy (headersGet r ''X-Session-Token'')
      \<and> validateToken (headersGet r ''X-Session-Token'') now
      \<and> headersGet r ''X-Protected-Image'' = Some ''true'')"

text \<open>
  The decision itself, in the order of the source. The \<^verbatim>\<open>console.log\<close> calls do not
  influence it and are left out.
\<close>

definition isAuthenticated :: "location \<Rightarrow> int \<Rightarrow> request \<Rightarrow> bool" where
  "isAuthenticated loc now r =
     (if isLocalhost loc then True
      else if isDownloadAttempt (userAgent r) then False
      else if includesStr (url r) ''/images/'' then
        (if destination r = ''image'' \<and> hasValidReferer loc r then True
         else if hasValidAuth now r \<and> hasValidReferer loc r then True
         else if mode r = ''navigate'' then False
         else False)
      else True)"

section \<open>Cache storage, network and the effects of a handler\<close>

text \<open>
  \<^verbatim>\<open>caches\<close> is the list of named caches in creation order; a cache is its list of
  stored request/response pairs. A stored request matches a query when the query's method
  is \<^verbatim>\<open>GET\<close> and the two URLs agree up to their fragments. \<^verbatim>\<open>caches.match\<close> asks every cache
  in creation order and answers with the first hit; no hit is \<^verbatim>\<open>undefined\<close>, here \<open>None\<close>.
  Matching does not look at \<^verbatim>\<open>Vary\<close> headers.
\<close>

type_synonym cache = "(request \<times> response) list"

type_synonym cacheStorage = "(string \<times> cache) list"

definition stripFragment :: "string \<Rightarrow> string" where
  "stripFragment u = takeWhile (\<lambda>c. c \<noteq> CHR ''#'') u"

definition requestMatches :: "request \<Rightarrow> request \<Rightarrow> bool" where
  "requestMatches stored q =
     (httpMethod q = ''GET'' \<and> stripFragment (url stored) = stripFragment (url q))"

fun cacheMatch :: "cache \<Rightarrow> request \<Rightarrow> response option" where
  "cacheMatch [] q = None"
| "cacheMatch ((stored, resp) # rest) q =
     (if requestMatches stored q then Some resp else cacheMatch rest q)"

fun cachesMatch :: "cacheStorage \<Rightarrow> request \<Rightarrow> response option" where
  "cachesMatch [] q = None"
| "cachesMatch ((name, c) # rest) q =
     (case cacheMatch c q of Some resp \<Rightarrow> Some resp | None \<Rightarrow> cachesMatch rest q)"

text \<open>The entry one named tier holds for a request.\<close>

definition tierMatch :: "cacheStorage \<Rightarrow> string \<Rightarrow> request \<Rightarrow> response option" where
  "tierMatch store name q =
     (case map_of store name of None \<Rightarrow> None | Some c \<Rightarrow> cacheMatch c q)"

text \<open>
  What a handler does besides answering is recorded in order: each \<^verbatim>\<open>caches.match\<close>, each
  call of \<^verbatim>\<open>isAuthenticated\<close>, each \<^verbatim>\<open>fetch\<close>, and each detached
  \<^verbatim>\<open>caches.open(name).then(cache => cache.put(request, clone))\<close>.
\<close>

datatype event =
    CacheMatch request
  | PolicyCheck request
  | NetFetch request
  | CachePut string request response

text \<open>
  \<^verbatim>\<open>event.respondWith(p)\<close> answers the page with the response \<open>p\<close> resolves to. When \<open>p\<close>
  rejects (\<^verbatim>\<open>fetch\<close> failed and nothing caught it) or resolves to something that is not a
  \<^verbatim>\<open>Response\<close>, the page's request fails with a network error.
\<close>

datatype fault = FetchRejected | NotAResponse

datatype outcome = Responded response | Faulted fault

text \<open>The network: \<open>None\<close> is a transport failure, which rejects the promise of \<^verbatim>\<open>fetch\<close>.\<close>

type_synonym network = "request \<Rightarrow> response option"

text \<open>
  Settling the detached writes. \<^verbatim>\<open>caches.open\<close> creates a missing cache at the end of the
  list. \<^verbatim>\<open>cache.put(request, response)\<close> rejects, leaving the cache as it is, when the URL of
  the request is not an \<^verbatim>\<open>http\<close> or \<^verbatim>\<open>https\<close> URL, when its method is not \<^verbatim>\<open>GET\<close>, when the
  status of the response is 206, and when a \<^verbatim>\<open>Vary\<close> header of the response lists \<^verbatim>\<open>*\<close>;
  otherwise it replaces the entries the request matches. Nobody waits for the write or
  looks at its failure.
\<close>

definition isHttpWhitespace :: "char \<Rightarrow> bool" where
  "isHttpWhitespace c = (c = CHR '' '' \<or> c = CHR 0x09)"

definition trimHttpWhitespace :: "string \<Rightarrow> string" where
  "trimHttpWhitespace s =
     rev (dropWhile isHttpWhitespace (rev (dropWhile isHttpWhitespace s)))"

definition varyFieldValues :: "response \<Rightarrow> string list" where
  "varyFieldValues resp =
     concat (map (\<lambda>(name, v). map trimHttpWhitespace (split CHR '','' v))
               (filter (\<lambda>(name, v). map asciiLower name = ''vary'') (respHeaders resp)))"

definition putRejected :: "request \<Rightarrow> response \<Rightarrow> bool" where
  "putRejected r resp =
     (\<not> (startsWith (url r) ''http://'' \<or> startsWith (url r) ''https://'')
      \<or> httpMethod r \<noteq> ''GET''
      \<or> status resp = 206
      \<or> ''*'' \<in> set (varyFieldValues resp))"

definition cachePut :: "cache \<Rightarrow> request \<Rightarrow> response \<Rightarrow> cache" where
  "cachePut c r resp =
     (if putRejected r resp then c
      else filter (\<lambda>(stored, _). \<not> requestMatches stored r) c @ [(r, resp)])"

fun openAndPut :: "cacheStorage \<Rightarrow> string \<Rightarrow> request \<Rightarrow> response \<Rightarrow> cacheStorage" where
  "openAndPut [] name r resp = [(name, cachePut [] r resp)]"
| "openAndPut ((n, c) # rest) name r resp =
     (if n = name then (n, cachePut c r resp) # rest
      else (n, c) # openAndPut rest name r resp)"

fun applyEvent :: "cacheStorage \<Rightarrow> event \<Rightarrow> cacheStorage" where
  "applyEvent store (CachePut name r resp) = openAndPut store name r resp"
| "applyEvent store _ = store"

definition settle :: "cacheStorage \<Rightarrow> event list \<Rightarrow> cacheStorage" where
  "settle store evs = foldl applyEvent store evs"

section \<open>The responses the worker builds itself\<close>

definition directNavigationBlocked :: response where
  "directNavigationBlocked =
     \<lparr> status = 403, statusText = ''Forbidden'',
       respHeaders = [(''Content-Type'', ''text/html''),
                      (''X-Protection-Reason'', ''Direct navigation blocked'')],
       body = ''<!DOCTYPE html><html><head><title>403 Forbidden</title><style>body{font-family:Arial,sans-serif;display:flex;justify-content:center;align-items:center;height:100vh;margin:0;background:#f5f5f5;}div{text-align:center;padding:2rem;background:white;border-radius:8px;box-shadow:0 2px 10px rgba(0,0,0,0.1);}h1{color:#e74c3c;margin:0 0 1rem;}p{color:#666;}</style></head><body><div><h1>&#x1F512; Access Denied</h1><p>Direct access to images is not allowed.</p><p>Please view images through the portfolio.</p></div></body></html>'',
       respType = ''default'' \<rparr>"

definition unauthorizedAccess :: response where
  "unauthorizedAccess =
     \<lparr> status = 403, statusText = ''Forbidden'',
       respHeaders = [(''Content-Type'', ''text/plain''),
                      (''X-Protection-Reason'', ''Unauthorized access attempt detected'')],
       body = ''403 Forbidden - Image Protection Active'',
       respType = ''default'' \<rparr>"

definition emptyNotFound :: response where
  "emptyNotFound =
     \<lparr> status = 404, statusText = [], respHeaders = [], body = [],
       respType = ''default'' \<rparr>"

definition networkUnavailable :: response where
  \<open>networkUnavailable =
     \<lparr> status = 503, statusText = [],
       respHeaders = [(''Content-Type'', ''application/json'')],
       body = ''{"error":"Network unavailable"}'',
       respType = ''default'' \<rparr>\<close>

definition offlineContent :: response where
  "offlineContent =
     \<lparr> status = 503, statusText = [],
       respHeaders = [(''Content-Type'', ''text/plain'')],
       body = ''Offline - Content not available'',
       respType = ''default'' \<rparr>"

section \<open>The fetch handler\<close>

subsection \<open>Static assets: cache first\<close>

text \<open>
  \<^verbatim>\<open>caches.match(request).then(response => response || fetch(request).then(...))\<close>. The
  fetch has no \<^verbatim>\<open>catch\<close>: a transport failure rejects the promise given to \<^verbatim>\<open>respondWith\<close>.
\<close>

definition staticStrategy :: "network \<Rightarrow> cacheStorage \<Rightarrow> request \<Rightarrow> outcome \<times> event list" where
  "staticStrategy net store r =
     (case cachesMatch store r of
        Some cached \<Rightarrow> (Responded cached, [CacheMatch r])
      | None \<Rightarrow>
          (case net r of
             Some resp \<Rightarrow>
               (Responded resp, [CacheMatch r, NetFetch r, CachePut STATIC_CACHE r resp])
           | None \<Rightarrow> (Faulted FetchRejected, [CacheMatch r, NetFetch r])))"

subsection \<open>Images: cache first, then the access check, then the network\<close>

text \<open>
  \<^verbatim>\<open>caches.match('/images/placeholder.jpeg')\<close> turns the string into a \<^verbatim>\<open>GET\<close> request for that
  path on the worker's origin.
\<close>

definition placeholderRequest :: "location \<Rightarrow> request" where
  "placeholderRequest loc =
     \<lparr> url = origin loc @ ''/images/placeholder.jpeg'', httpMethod = ''GET'',
       destination = [], mode = ''cors'', headers = Map.empty \<rparr>"

text \<open>
  \<^verbatim>\<open>p || alt\<close> where \<open>p\<close> is a promise. A promise is an object and so is truthy whatever it
  will resolve to: the value of the expression is \<open>p\<close>, and \<open>alt\<close> is never evaluated.
  The argument \<open>p\<close> is what the promise resolves to.
\<close>

definition promiseOr :: "response option \<Rightarrow> response \<Rightarrow> response option" where
  "promiseOr p alt = p"

text \<open>
  \<^verbatim>\<open>fetch(request).then(...).catch(...)\<close> of the image branch. The \<^verbatim>\<open>catch\<close> returns
  \<^verbatim>\<open>caches.match('/images/placeholder.jpeg') || new Response('', { status: 404 })\<close>; when
  that resolves to \<^verbatim>\<open>undefined\<close>, \<^verbatim>\<open>respondWith\<close> has no \<^verbatim>\<open>Response\<close> to give.
\<close>

definition imageFetch :: "location \<Rightarrow> network \<Rightarrow> cacheStorage \<Rightarrow> request \<Rightarrow> outcome \<times> event list" where
  "imageFetch loc net store r =
     (case net r of
        Some resp \<Rightarrow>
          (Responded resp,
           NetFetch r # (if ok resp then [CachePut IMAGES_CACHE r resp] else []))
      | None \<Rightarrow>
          (case promiseOr (cachesMatch store (placeholderRequest loc)) emptyNotFound of
             Some placeholder \<Rightarrow> Responded placeholder
           | None \<Rightarrow> Faulted NotAResponse,
           [NetFetch r, CacheMatch (placeholderRequest loc)]))"

definition isDirectNavigation :: "request \<Rightarrow> bool" where
  "isDirectNavigation r =
     (mode r = ''navigate''
      \<or> (\<not> truthy (headersGet r ''X-Protected-Image'') \<and> destination r = []))"

definition imageStrategy ::
  "location \<Rightarrow> int \<Rightarrow> network \<Rightarrow> cacheStorage \<Rightarrow> request \<Rightarrow> outcome \<times> event list" where
  "imageStrategy loc now net store r =
     (case cachesMatch store r of
        Some cached \<Rightarrow> (Responded cached, [CacheMatch r])
      | None \<Rightarrow>
          if isDirectNavigation r \<and> includesStr (url r) ''/images/'' then
            (Responded directNavigationBlocked, [CacheMatch r])
          else if \<not> isAuthenticated loc now r then
            (Responded unauthorizedAccess, [CacheMatch r, PolicyCheck r])
          else
            (fst (imageFetch loc net store r),
             CacheMatch r # PolicyCheck r # snd (imageFetch loc net store r)))"

subsection \<open>API and non-\<^verbatim>\<open>GET\<close> requests: network only\<close>

definition dynamicStrategy :: "network \<Rightarrow> request \<Rightarrow> outcome \<times> event list" where
  "dynamicStrategy net r =
     (case net r of
        Some resp \<Rightarrow> (Responded resp, [NetFetch r])
      | None \<Rightarrow> (Responded networkUnavailable, [NetFetch r]))"

subsection \<open>Everything else: network first, cache as fallback\<close>

definition genericStrategy :: "network \<Rightarrow> cacheStorage \<Rightarrow> request \<Rightarrow> outcome \<times> event list" where
  "genericStrategy net store r =
     (case net r of
        Some resp \<Rightarrow>
          (Responded resp,
           NetFetch r #
             (if ok resp \<and> respType resp = ''basic'' then [CachePut STATIC_CACHE r resp]
              else []))
      | None \<Rightarrow>
          (case cachesMatch store r of
             Some cached \<Rightarrow> Responded cached
           | None \<Rightarrow> Responded offlineContent,
           [NetFetch r, CacheMatch r]))"

subsection \<open>Dispatch\<close>

text \<open>
  The listener tests its three conditions in this order and returns after the first that
  holds. The class of a request is the branch that handles it.
\<close>

definition isStaticAsset :: "request \<Rightarrow> bool" where
  "isStaticAsset r = list_ex (\<lambda>asset. endsWith (url r) asset) STATIC_ASSETS"

definition isImageRequest :: "request \<Rightarrow> bool" where
  "isImageRequest r = (destination r = ''image'' \<or> includesStr (url r) ''/images/'')"

definition isDynamicRequest :: "request \<Rightarrow> bool" where
  "isDynamicRequest r = (includesStr (url r) ''/api/'' \<or> httpMethod r \<noteq> ''GET'')"

definition handleFetch ::
  "location \<Rightarrow> int \<Rightarrow> network \<Rightarrow> cacheStorage \<Rightarrow> request \<Rightarrow> outcome \<times> event list" where
  "handleFetch loc now net store r =
     (if isStaticAsset r then staticStrategy net store r
      else if isImageRequest r then imageStrategy loc now net store r
      else if isDynamicRequest r then dynamicStrategy net r
      else genericStrategy net store r)"

datatype requestClass = StaticAsset | ProtectedImage | Dynamic | Generic

definition classify :: "request \<Rightarrow> requestClass" where
  "classify r =
     (if isStaticAsset r then StaticAsset
      else if isImageRequest r then ProtectedImage
      else if isDynamicRequest r then Dynamic
      else Generic)"

section \<open>Concrete requests used to exercise the model\<close>

text \<open>
  The site served from its production origin, at a time of 1700000000500 ms; the token
  \<^verbatim>\<open>MTcwMDAwMDAwMDAwMC1rM3g5\<close> is the base64 form of \<^verbatim>\<open>1700000000000-k3x9\<close>. The stores are
  those the worker reaches from \<open>installedStore\<close> when a page shows the picture
  \<^verbatim>\<open>/assets/hero.jpg\<close> and a script then fetches the same URL.
\<close>

definition siteLocation :: location where
  "siteLocation = \<lparr> origin = ''https://www.abphotostudio.in'', hostname = ''www.abphotostudio.in'' \<rparr>"

definition curlRequest :: request where
  "curlRequest =
     \<lparr> url = ''https://www.abphotostudio.in/images/a.jpg'', httpMethod = ''GET'',
       destination = ''image'', mode = ''no-cors'',
       headers = [''user-agent'' \<mapsto> ''curl/8.4.0'',
                  ''referer'' \<mapsto> ''https://www.abphotostudio.in/gallery'',
                  ''x-image-auth'' \<mapsto> ''protected'',
                  ''x-session-token'' \<mapsto> ''MTcwMDAwMDAwMDAwMC1rM3g5'',
                  ''x-protected-image'' \<mapsto> ''true''] \<rparr>"

definition pagesLocation :: location where
  "pagesLocation =
     \<lparr> origin = ''https://avinashbhorphotography.github.io'',
       hostname = ''avinashbhorphotography.github.io'' \<rparr>"

definition galleryImageRequest :: request where
  "galleryImageRequest =
     \<lparr> url = ''https://www.abphotostudio.in/images/a.jpg'', httpMethod = ''GET'',
       destination = ''image'', mode = ''no-cors'',
       headers = [''user-agent'' \<mapsto> ''Mozilla/5.0'',
                  ''referer'' \<mapsto> ''https://www.abphotostudio.in/gallery''] \<rparr>"

definition portfolioImageRequest :: request where
  "portfolioImageRequest =
     \<lparr> url = ''https://www.abphotostudio.in/images/b.jpg'', httpMethod = ''GET'',
       destination = ''image'', mode = ''no-cors'',
       headers = [''referer'' \<mapsto> ''https://avinashbhorphotography.github.io/portfolio''] \<rparr>"

definition unsplashRequest :: request where
  "unsplashRequest =
     \<lparr> url = ''https://images.unsplash.com/photo-1'', httpMethod = ''GET'',
       destination = ''image'', mode = ''no-cors'', headers = Map.empty \<rparr>"

definition originOk :: response where
  "originOk =
     \<lparr> status = 200, statusText = ''OK'', respHeaders = [], body = ''bytes from the origin'',
       respType = ''basic'' \<rparr>"

definition online :: network where
  "online = (\<lambda>r. Some originOk)"

definition offline :: network where
  "offline = (\<lambda>r. None)"

definition imagesIndexRequest :: request where
  "imagesIndexRequest =
     \<lparr> url = ''https://www.abphotostudio.in/images/'', httpMethod = ''GET'',
       destination = ''image'', mode = ''no-cors'', headers = Map.empty \<rparr>"

definition contactRequest :: request where
  "contactRequest =
     \<lparr> url = ''https://www.abphotostudio.in/api/contact'', httpMethod = ''POST'',
       destination = [], mode = ''cors'', headers = Map.empty \<rparr>"

definition heroImageRequest :: request where
  "heroImageRequest =
     \<lparr> url = ''https://www.abphotostudio.in/assets/hero.jpg'', httpMethod = ''GET'',
       destination = ''image'', mode = ''no-cors'',
       headers = [''referer'' \<mapsto> ''https://www.abphotostudio.in/gallery''] \<rparr>"

definition heroScriptRequest :: request where
  "heroScriptRequest =
     \<lparr> url = ''https://www.abphotostudio.in/assets/hero.jpg'', httpMethod = ''GET'',
       destination = [], mode = ''cors'', headers = Map.empty \<rparr>"

definition heroStaticCopy :: response where
  "heroStaticCopy =
     \<lparr> status = 200, statusText = ''OK'',
       respHeaders = [(''Content-Type'', ''image/jpeg'')], body = ''picture as fetched by the script'',
       respType = ''basic'' \<rparr>"

definition heroImageCopy :: response where
  "heroImageCopy =
     \<lparr> status = 200, statusText = ''OK'',
       respHeaders = [(''Content-Type'', ''image/jpeg'')], body = ''picture as fetched by the page'',
       respType = ''basic'' \<rparr>"

definition twoTierStore :: cacheStorage where
  "twoTierStore =
     [(STATIC_CACHE, [(heroScriptRequest, heroStaticCopy)]),
      (IMAGES_CACHE, [(heroImageRequest, heroImageCopy)])]"

definition imageTierStore :: cacheStorage where
  "imageTierStore = [(STATIC_CACHE, []), (IMAGES_CACHE, [(heroImageRequest, heroImageCopy)])]"

definition serving :: "response \<Rightarrow> network" where
  "serving resp = (\<lambda>r. Some resp)"

definition installedStore :: cacheStorage where
  "installedStore = [(STATIC_CACHE, [])]"

definition imagesIndexPageRequest :: request where
  "imagesIndexPageRequest =
     \<lparr> url = ''https://www.abphotostudio.in/images/index.html'', httpMethod = ''GET'',
       destination = ''document'', mode = ''navigate'', headers = Map.empty \<rparr>"

definition typedImageRequest :: request where
  "typedImageRequest =
     \<lparr> url = ''https://www.abphotostudio.in/images/a.jpg'', httpMethod = ''GET'',
       destination = ''document'', mode = ''navigate'', headers = Map.empty \<rparr>"

section \<open>Auxiliary facts\<close>

text \<open>
  \<open>includesStr\<close> is the library's contiguous-sublist relation, \<open>split\<close> yields one field
  more than there are separators, and the header names the worker asks for are looked up
  under their lowercased form.
\<close>

lemma includesStr_sublist: "includesStr s p \<longleftrightarrow> sublist p s"
  by (induction s) (simp_all add: sublist_Cons_right)

lemma includesStr_Nil_left: "p \<noteq> [] \<Longrightarrow> \<not> includesStr [] p"
  by simp

lemma headersGet_names:
  "headersGet r ''X-Image-Auth'' = headers r ''x-image-auth''"
  "headersGet r ''X-Session-Token'' = headers r ''x-session-token''"
  "headersGet r ''X-Protected-Image'' = headers r ''x-protected-image''"
  "headersGet r ''Referer'' = headers r ''referer''"
  "headersGet r ''referer'' = headers r ''referer''"
  "headersGet r ''User-Agent'' = headers r ''user-agent''"
  by (simp_all add: headersGet_def asciiLower_def char_of_def bit_Suc_0_iff)

lemma userAgent_present:
  assumes "headersGet r ''User-Agent'' = Some ua"
  shows "userAgent r = ua"
  using assms by (cases "ua = []") (simp_all add: userAgent_def jsOr_def truthy_def)

lemmas tok_eval = validateToken_def atob_def stripPadding_def endsWith_def isAsciiWhitespace_def base64Value_def char_of_def suffix_to_prefix bit_Suc_0_iff parseInt_def parseDigits_def isRadixDigit_def digitValue_def mathInt_def isStrWhiteSpaceChar_def startsWith_def Let_def maxAge_def

lemma token_example_valid: "validateToken (Some ''MTcwMDAwMDAwMDAwMC1rM3g5'') 1700000000500"
  by (simp add: tok_eval)

lemma atob_empty: "atob [] = Some []"
  by (simp add: atob_def stripPadding_def endsWith_def)

lemma split_not_empty: "split sep s \<noteq> []"
  by (induction s) (auto split: list.splits)

lemma length_split: "length (split sep s) = Suc (count_list s sep)"
proof (induction s)
  case Nil
  show ?case by simp
next
  case (Cons c cs)
  then show ?case
    using split_not_empty [of sep cs] by (auto split: list.splits)
qed

lemma atob_examples:
  "atob ''MTY5OTk5OTcwMDAwMC1rM3g5'' = Some ''1699999700000-k3x9''"
  "atob ''MTcwMDAwMDAwMTAwMC1rM3g5'' = Some ''1700000001000-k3x9''"
  "atob ''MTcwMDAwMDAwMDAwMGFiYy14'' = Some ''1700000000000abc-x''"
  "atob ''MHgxOEJDRkU1NjgwMC14'' = Some ''0x18BCFE56800-x''"
  by (simp_all add: atob_def stripPadding_def endsWith_def isAsciiWhitespace_def
      base64Value_def char_of_def suffix_to_prefix bit_Suc_0_iff)

lemma parseInt_examples:
  "parseInt ''1699999700000'' = Some 1699999700000"
  "parseInt ''1700000001000'' = Some 1700000001000"
  "parseInt ''1700000000000abc'' = Some 1700000000000"
  "parseInt ''0x18BCFE56800'' = Some 1700000000000"
  by (simp_all add: parseInt_def parseDigits_def isRadixDigit_def digitValue_def mathInt_def
      isStrWhiteSpaceChar_def startsWith_def Let_def)

lemma referer_header: "referer r = headersGet r ''Referer''"
  by (simp add: referer_def jsOr_def headersGet_names)

lemma isStaticAsset_iff: "isStaticAsset r \<longleftrightarrow> (\<exists>asset \<in> set STATIC_ASSETS. endsWith (url r) asset)"
  by (simp add: isStaticAsset_def list_ex_iff)

lemma classify_cases:
  "classify r = StaticAsset \<longleftrightarrow> isStaticAsset r"
  "classify r = ProtectedImage \<longleftrightarrow> \<not> isStaticAsset r \<and> isImageRequest r"
  "classify r = Dynamic \<longleftrightarrow> \<not> isStaticAsset r \<and> \<not> isImageRequest r \<and> isDynamicRequest r"
  "classify r = Generic \<longleftrightarrow> \<not> isStaticAsset r \<and> \<not> isImageRequest r \<and> \<not> isDynamicRequest r"
  by (simp_all add: classify_def)

lemma settle_no_put:
  "settle store [] = store"
  "settle store (CacheMatch q # evs) = settle store evs"
  "settle store (PolicyCheck q # evs) = settle store evs"
  "settle store (NetFetch q # evs) = settle store evs"
  "settle store (CachePut name q resp # evs) = settle (openAndPut store name q resp) evs"
  by (simp_all add: settle_def)

lemma tier_hit_caches_hit:
  "tierMatch store name q = Some e \<Longrightarrow> \<exists>c. cachesMatch store q = Some c"
proof (induction store)
  case Nil
  then show ?case by (simp add: tierMatch_def)
next
  case (Cons nc rest)
  obtain n c where nc: "nc = (n, c)" by (cases nc)
  show ?case
  proof (cases "cacheMatch c q")
    case (Some x)
    with nc show ?thesis by simp
  next
    case None
    with Cons.prems nc have "n \<noteq> name"
      by (auto simp: tierMatch_def)
    with Cons.prems nc have "tierMatch rest name q = Some e"
      by (simp add: tierMatch_def)
    with Cons.IH None nc show ?thesis by simp
  qed
qed

lemma tier_hit_only:
  "tierMatch store name q = Some e \<Longrightarrow>
   (\<forall>(n, c) \<in> set store. n \<noteq> name \<longrightarrow> cacheMatch c q = None) \<Longrightarrow>
   cachesMatch store q = Some e"
proof (induction store)
  case Nil
  then show ?case by (simp add: tierMatch_def)
next
  case (Cons nc rest)
  obtain n c where nc: "nc = (n, c)" by (cases nc)
  show ?case
  proof (cases "n = name")
    case True
    with Cons.prems(1) nc show ?thesis by (simp add: tierMatch_def)
  next
    case False
    with Cons.prems nc have "cacheMatch c q = None" and "tierMatch rest name q = Some e"
      by (auto simp: tierMatch_def)
    with Cons.IH Cons.prems(2) nc show ?thesis by simp
  qed
qed

lemma image_hit:
  assumes "classify r = ProtectedImage" and "cachesMatch store r = Some cached"
  shows "handleFetch loc now net store r = (Responded cached, [CacheMatch r])"
  using assms by (simp add: classify_cases handleFetch_def imageStrategy_def)

lemma stores_reachable:
  "settle installedStore
     (snd (handleFetch siteLocation 1700000000500 (serving heroImageCopy) installedStore
        heroImageRequest)) = imageTierStore"
  "settle imageTierStore
     (snd (handleFetch siteLocation 1700000000500 (serving heroStaticCopy) imageTierStore
        heroScriptRequest)) = twoTierStore"
proof -
  have i: "\<not> isStaticAsset heroImageRequest" "isImageRequest heroImageRequest"
    "\<not> isDirectNavigation heroImageRequest"
    by (simp_all add: isStaticAsset_def isImageRequest_def isDirectNavigation_def
        heroImageRequest_def STATIC_ASSETS_def endsWith_def suffix_to_prefix)
  have a: "isAuthenticated siteLocation 1700000000500 heroImageRequest"
    by (simp add: isAuthenticated_def isLocalhost_def siteLocation_def isDownloadAttempt_def
        userAgent_def jsOr_def truthy_def headersGet_names heroImageRequest_def)
  have m: "cachesMatch installedStore heroImageRequest = None"
    by (simp add: installedStore_def)
  have f: "imageFetch siteLocation (serving heroImageCopy) installedStore heroImageRequest
    = (Responded heroImageCopy,
       [NetFetch heroImageRequest, CachePut IMAGES_CACHE heroImageRequest heroImageCopy])"
    by (simp add: imageFetch_def serving_def ok_def heroImageCopy_def)
  have "\<not> putRejected heroImageRequest heroImageCopy"
    by (simp add: putRejected_def varyFieldValues_def startsWith_def heroImageRequest_def
        heroImageCopy_def asciiLower_def char_of_def bit_Suc_0_iff)
  then have p: "cachePut [] heroImageRequest heroImageCopy = [(heroImageRequest, heroImageCopy)]"
    by (simp add: cachePut_def)
  show "settle installedStore
     (snd (handleFetch siteLocation 1700000000500 (serving heroImageCopy) installedStore
        heroImageRequest)) = imageTierStore"
  proof -
    have "snd (handleFetch siteLocation 1700000000500 (serving heroImageCopy) installedStore
        heroImageRequest)
      = [CacheMatch heroImageRequest, PolicyCheck heroImageRequest, NetFetch heroImageRequest,
         CachePut IMAGES_CACHE heroImageRequest heroImageCopy]"
      using i a m by (simp add: handleFetch_def imageStrategy_def f)
    then show ?thesis
      by (simp add: settle_no_put p installedStore_def imageTierStore_def STATIC_CACHE_def
          IMAGES_CACHE_def)
  qed
  have g: "\<not> isStaticAsset heroScriptRequest" "\<not> isImageRequest heroScriptRequest"
    "\<not> isDynamicRequest heroScriptRequest"
    by (simp_all add: isStaticAsset_def isImageRequest_def isDynamicRequest_def
        heroScriptRequest_def STATIC_ASSETS_def endsWith_def suffix_to_prefix)
  have "\<not> putRejected heroScriptRequest heroStaticCopy"
    by (simp add: putRejected_def varyFieldValues_def startsWith_def heroScriptRequest_def
        heroStaticCopy_def asciiLower_def char_of_def bit_Suc_0_iff)
  then have q: "cachePut [] heroScriptRequest heroStaticCopy = [(heroScriptRequest, heroStaticCopy)]"
    by (simp add: cachePut_def)
  show "settle imageTierStore
     (snd (handleFetch siteLocation 1700000000500 (serving heroStaticCopy) imageTierStore
        heroScriptRequest)) = twoTierStore"
  proof -
    have "snd (handleFetch siteLocation 1700000000500 (serving heroStaticCopy) imageTierStore
        heroScriptRequest)
      = [NetFetch heroScriptRequest, CachePut STATIC_CACHE heroScriptRequest heroStaticCopy]"
      using g
      by (simp add: handleFetch_def genericStrategy_def serving_def ok_def heroStaticCopy_def)
    then show ?thesis
      by (simp add: settle_no_put q imageTierStore_def twoTierStore_def)
  qed
qed

lemma image_fetch_failure:
  assumes "net r = None"
  shows "imageFetch loc net store r
    = (case cachesMatch store (placeholderRequest loc) of
         Some placeholder \<Rightarrow> Responded placeholder
       | None \<Rightarrow> Faulted NotAResponse,
       [NetFetch r, CacheMatch (placeholderRequest loc)])"
  using assms by (simp add: imageFetch_def promiseOr_def)

lemma cacheMatch_append:
  "cacheMatch (xs @ ys) q
     = (case cacheMatch xs q of Some resp \<Rightarrow> Some resp | None \<Rightarrow> cacheMatch ys q)"
  by (induction xs) auto

lemma cacheMatch_filter_out:
  "cacheMatch (filter (\<lambda>(stored, _). \<not> requestMatches stored q) c) q = None"
  by (induction c) auto

lemma cacheMatch_put:
  assumes "\<not> putRejected r resp"
  shows "cacheMatch (cachePut c r resp) r = Some resp"
proof -
  from assms have "requestMatches r r"
    by (simp add: requestMatches_def putRejected_def)
  then have "cacheMatch [(r, resp)] r = Some resp"
    by simp
  with assms show ?thesis
    by (simp add: cachePut_def cacheMatch_append cacheMatch_filter_out)
qed

lemma tierMatch_openAndPut:
  assumes "\<not> putRejected r resp"
  shows "tierMatch (openAndPut store name r resp) name r = Some resp"
proof (induction store)
  case Nil
  show ?case using assms by (simp add: tierMatch_def cacheMatch_put)
next
  case (Cons nc rest)
  obtain n c where nc: "nc = (n, c)" by (cases nc)
  show ?case
  proof (cases "n = name")
    case True
    with nc assms show ?thesis by (simp add: tierMatch_def cacheMatch_put)
  next
    case False
    with nc Cons.IH show ?thesis by (simp add: tierMatch_def)
  qed
qed

lemma cachePut_rejected:
  assumes "putRejected r resp"
  shows "cachePut c r resp = c"
  using assms by (simp add: cachePut_def)

section \<open>Bot and download-tool denial\<close>

text \<open>
  C1. On a host that is not a local-development host, a request whose \<^verbatim>\<open>User-Agent\<close>
  header contains one of the signatures \<^verbatim>\<open>Wget\<close>, \<^verbatim>\<open>curl\<close>, \<^verbatim>\<open>Python\<close>, \<^verbatim>\<open>bot\<close>, \<^verbatim>\<open>spider\<close>,
  \<^verbatim>\<open>crawler\<close>, \<^verbatim>\<open>Postman\<close>, \<^verbatim>\<open>HTTPie\<close> is denied by \<^verbatim>\<open>isAuthenticated\<close>, whatever its URL,
  destination, mode, referer, session token, auth marker and protected flag are.
\<close>

theorem bot_user_agent_denied:
  assumes "\<not> isLocalhost loc"
    and "headersGet r ''User-Agent'' = Some ua"
    and "sig \<in> set [''Wget'', ''curl'', ''Python'', ''bot'', ''spider'', ''crawler'',
                      ''Postman'', ''HTTPie'']"
    and "includesStr ua sig"
  shows "isAuthenticated loc now r = False"
proof -
  have ua: "userAgent r = ua"
    using assms(2) by (rule userAgent_present)
  from assms(3,4) have "isDownloadAttempt ua"
    unfolding isDownloadAttempt_def by auto
  with ua assms(1) show ?thesis
    by (simp add: isAuthenticated_def)
qed

text \<open>
  The request \<open>curlRequest\<close> carries a valid referer and valid credentials and is
  denied all the same.
\<close>

theorem bot_user_agent_denied_witness:
  "\<not> isLocalhost siteLocation
   \<and> headersGet curlRequest ''User-Agent'' = Some ''curl/8.4.0''
   \<and> ''curl'' \<in> set [''Wget'', ''curl'', ''Python'', ''bot'', ''spider'', ''crawler'',
                      ''Postman'', ''HTTPie'']
   \<and> includesStr ''curl/8.4.0'' ''curl''
   \<and> hasValidReferer siteLocation curlRequest
   \<and> hasValidAuth 1700000000500 curlRequest
   \<and> isAuthenticated siteLocation 1700000000500 curlRequest = False"
proof -
  have a: "\<not> isLocalhost siteLocation"
    by (simp add: isLocalhost_def siteLocation_def)
  have b: "headersGet curlRequest ''User-Agent'' = Some ''curl/8.4.0''"
    by (simp add: headersGet_names curlRequest_def)
  have c: "''curl'' \<in> set [''Wget'', ''curl'', ''Python'', ''bot'', ''spider'', ''crawler'',
                      ''Postman'', ''HTTPie'']"
    by simp
  have d: "includesStr ''curl/8.4.0'' ''curl''" by simp
  have e: "hasValidReferer siteLocation curlRequest"
    by (simp add: hasValidReferer_def referer_def headersGet_names curlRequest_def jsOr_def
        truthy_def startsWith_def siteLocation_def)
  have f: "hasValidAuth 1700000000500 curlRequest"
    by (simp add: hasValidAuth_def headersGet_names curlRequest_def truthy_def
        token_example_valid)
  from bot_user_agent_denied [OF a b c d] a b c d e f show ?thesis
    by blast
qed

section \<open>Token validation\<close>

text \<open>
  C2, as the code has it. \<^verbatim>\<open>validateToken(t)\<close> at time \<open>now\<close> is true exactly when \<open>t\<close> is
  present, \<^verbatim>\<open>atob\<close> decodes it, the payload has at least two fields separated by \<^verbatim>\<open>-\<close>, and
  \<^verbatim>\<open>parseInt\<close> reads from the first field a number \<open>ts\<close> with
  \<open>now - maxAge < ts\<close> and \<open>ts \<le> now + 1000\<close>, where \<open>maxAge\<close> is five minutes
  in milliseconds. The lower bound is strict and the upper bound inclusive. What
  \<^verbatim>\<open>parseInt\<close> reads is the leading integer of the field, in decimal or after \<^verbatim>\<open>0x\<close> in
  hexadecimal; what follows it is ignored. Validation answers false for a missing or empty
  token, a token that does not decode, a payload without \<^verbatim>\<open>-\<close>, and a first field from which
  \<^verbatim>\<open>parseInt\<close> reads no number.
\<close>

theorem validateToken_window:
  "(validateToken tok now \<longleftrightarrow>
      (\<exists>t decoded ts.
          tok = Some t \<and> atob t = Some decoded
          \<and> 2 \<le> length (split CHR ''-'' decoded)
          \<and> parseInt (split CHR ''-'' decoded ! 0) = Some ts
          \<and> now - maxAge < ts \<and> ts \<le> now + 1000))
   \<and> (tok = None \<or> tok = Some [] \<longrightarrow> \<not> validateToken tok now)
   \<and> (\<forall>t. tok = Some t \<and> atob t = None \<longrightarrow> \<not> validateToken tok now)
   \<and> (\<forall>t decoded. tok = Some t \<and> atob t = Some decoded \<and> CHR ''-'' \<notin> set decoded
          \<longrightarrow> \<not> validateToken tok now)
   \<and> (\<forall>t decoded. tok = Some t \<and> atob t = Some decoded
          \<and> parseInt (split CHR ''-'' decoded ! 0) = None
          \<longrightarrow> \<not> validateToken tok now)
   \<and> (\<forall>t decoded. tok = Some t \<and> atob t = Some decoded
          \<and> CHR ''-'' \<in> set decoded
          \<and> parseInt (split CHR ''-'' decoded ! 0) = Some (now - maxAge)
          \<longrightarrow> \<not> validateToken tok now)
   \<and> (\<forall>t decoded. tok = Some t \<and> atob t = Some decoded
          \<and> CHR ''-'' \<in> set decoded
          \<and> parseInt (split CHR ''-'' decoded ! 0) = Some (now + 1000)
          \<longrightarrow> validateToken tok now)"
proof -
  have fields: "length (split CHR ''-'' d) < 2 \<longleftrightarrow> CHR ''-'' \<notin> set d" for d
    by (simp add: length_split count_list_0_iff)
  have char: "validateToken tok now \<longleftrightarrow>
      (\<exists>t decoded ts.
          tok = Some t \<and> atob t = Some decoded
          \<and> 2 \<le> length (split CHR ''-'' decoded)
          \<and> parseInt (split CHR ''-'' decoded ! 0) = Some ts
          \<and> now - maxAge < ts \<and> ts \<le> now + 1000)"
  proof (cases tok)
    case None
    then show ?thesis by (simp add: validateToken_def)
  next
    case (Some t)
    show ?thesis
    proof (cases "t = []")
      case True
      with Some show ?thesis by (simp add: validateToken_def atob_empty)
    next
      case False
      with Some show ?thesis
        by (auto simp: validateToken_def Let_def split: option.splits)
    qed
  qed
  have c2: "tok = None \<or> tok = Some [] \<longrightarrow> \<not> validateToken tok now"
    by (auto simp: validateToken_def)
  have c3: "\<forall>t. tok = Some t \<and> atob t = None \<longrightarrow> \<not> validateToken tok now"
    by (auto simp: validateToken_def)
  have c4: "\<forall>t decoded. tok = Some t \<and> atob t = Some decoded \<and> CHR ''-'' \<notin> set decoded
          \<longrightarrow> \<not> validateToken tok now"
    using fields by (auto simp: validateToken_def Let_def)
  have c5: "\<forall>t decoded. tok = Some t \<and> atob t = Some decoded
          \<and> parseInt (split CHR ''-'' decoded ! 0) = None
          \<longrightarrow> \<not> validateToken tok now"
    by (auto simp: validateToken_def Let_def)
  have c6: "\<forall>t decoded. tok = Some t \<and> atob t = Some decoded
          \<and> CHR ''-'' \<in> set decoded
          \<and> parseInt (split CHR ''-'' decoded ! 0) = Some (now - maxAge)
          \<longrightarrow> \<not> validateToken tok now"
    by (auto simp: validateToken_def Let_def)
  have c7: "\<forall>t decoded. tok = Some t \<and> atob t = Some decoded
          \<and> CHR ''-'' \<in> set decoded
          \<and> parseInt (split CHR ''-'' decoded ! 0) = Some (now + 1000)
          \<longrightarrow> validateToken tok now"
  proof (intro allI impI)
    fix t decoded
    assume h: "tok = Some t \<and> atob t = Some decoded
          \<and> CHR ''-'' \<in> set decoded
          \<and> parseInt (split CHR ''-'' decoded ! 0) = Some (now + 1000)"
    then have "\<not> length (split CHR ''-'' decoded) < 2"
      using fields by blast
    moreover from h have "t \<noteq> []"
      by (auto simp: atob_empty)
    ultimately show "validateToken tok now"
      using h by (simp add: validateToken_def Let_def maxAge_def)
  qed
  from char c2 c3 c4 c5 c6 c7 show ?thesis
    by (intro conjI)
qed

text \<open>
  Both boundaries at \<open>now = 1700000000000\<close>: the token stamped \<open>now + 1000\<close> is
  accepted, the token stamped \<open>now - maxAge\<close> is refused.
\<close>

theorem validateToken_window_witness:
  "(atob ''MTcwMDAwMDAwMTAwMC1rM3g5'' = Some ''1700000001000-k3x9''
    \<and> CHR ''-'' \<in> set ''1700000001000-k3x9''
    \<and> parseInt (split CHR ''-'' ''1700000001000-k3x9'' ! 0) = Some (1700000000000 + 1000)
    \<and> validateToken (Some ''MTcwMDAwMDAwMTAwMC1rM3g5'') 1700000000000)
   \<and> (atob ''MTY5OTk5OTcwMDAwMC1rM3g5'' = Some ''1699999700000-k3x9''
    \<and> CHR ''-'' \<in> set ''1699999700000-k3x9''
    \<and> parseInt (split CHR ''-'' ''1699999700000-k3x9'' ! 0) = Some (1700000000000 - maxAge)
    \<and> \<not> validateToken (Some ''MTY5OTk5OTcwMDAwMC1rM3g5'') 1700000000000)"
proof -
  have p1: "parseInt (split CHR ''-'' ''1700000001000-k3x9'' ! 0) = Some (1700000000000 + 1000)"
    by (simp add: parseInt_examples)
  have d1: "CHR ''-'' \<in> set ''1700000001000-k3x9''" by simp
  have p0: "parseInt (split CHR ''-'' ''1699999700000-k3x9'' ! 0) = Some (1700000000000 - maxAge)"
    by (simp add: parseInt_examples maxAge_def)
  have d0: "CHR ''-'' \<in> set ''1699999700000-k3x9''" by simp
  have v1: "validateToken (Some ''MTcwMDAwMDAwMTAwMC1rM3g5'') 1700000000000"
    using validateToken_window [of "Some ''MTcwMDAwMDAwMTAwMC1rM3g5''" 1700000000000]
      atob_examples(2) d1 p1 by blast
  have v0: "\<not> validateToken (Some ''MTY5OTk5OTcwMDAwMC1rM3g5'') 1700000000000"
    using validateToken_window [of "Some ''MTY5OTk5OTcwMDAwMC1rM3g5''" 1700000000000]
      atob_examples(1) d0 p0 by blast
  from atob_examples p1 d1 p0 d0 v1 v0 show ?thesis by blast
qed

text \<open>
  C2 as it is worded fails in two ways. Its equivalence has \<open>now - maxAge \<le> ts\<close>:
  the token stamped \<open>1699999700000 = 1700000000000 - maxAge\<close> decodes, has two fields and
  a numeric first field inside that closed window, and is refused. And it refuses every
  non-numeric timestamp field: the payloads \<^verbatim>\<open>1700000000000abc-x\<close> and \<^verbatim>\<open>0x18BCFE56800-x\<close>, whose
  first fields are not decimal numbers, are accepted at time 1700000000500.
\<close>

theorem token_window_counterexample:
  "(atob ''MTY5OTk5OTcwMDAwMC1rM3g5'' = Some ''1699999700000-k3x9''
    \<and> split CHR ''-'' ''1699999700000-k3x9'' = [''1699999700000'', ''k3x9'']
    \<and> parseInt ''1699999700000'' = Some 1699999700000
    \<and> 1700000000000 - maxAge \<le> (1699999700000 :: int)
    \<and> (1699999700000 :: int) \<le> 1700000000000 + 1000
    \<and> validateToken (Some ''MTY5OTk5OTcwMDAwMC1rM3g5'') 1700000000000 = False)
   \<and> (atob ''MTcwMDAwMDAwMDAwMGFiYy14'' = Some ''1700000000000abc-x''
    \<and> split CHR ''-'' ''1700000000000abc-x'' = [''1700000000000abc'', ''x'']
    \<and> list_all (isRadixDigit 10) ''1700000000000abc'' = False
    \<and> validateToken (Some ''MTcwMDAwMDAwMDAwMGFiYy14'') 1700000000500 = True)
   \<and> (atob ''MHgxOEJDRkU1NjgwMC14'' = Some ''0x18BCFE56800-x''
    \<and> split CHR ''-'' ''0x18BCFE56800-x'' = [''0x18BCFE56800'', ''x'']
    \<and> list_all (isRadixDigit 10) ''0x18BCFE56800'' = False
    \<and> validateToken (Some ''MHgxOEJDRkU1NjgwMC14'') 1700000000500 = True)"
proof -
  have boundary: "validateToken (Some ''MTY5OTk5OTcwMDAwMC1rM3g5'') 1700000000000 = False"
    by (simp add: atob_examples parseInt_examples validateToken_def maxAge_def)
  have garbage: "validateToken (Some ''MTcwMDAwMDAwMDAwMGFiYy14'') 1700000000500 = True"
    by (simp add: atob_examples parseInt_examples validateToken_def maxAge_def)
  have hex: "validateToken (Some ''MHgxOEJDRkU1NjgwMC14'') 1700000000500 = True"
    by (simp add: atob_examples parseInt_examples validateToken_def maxAge_def)
  have nondigit: "list_all (isRadixDigit 10) ''1700000000000abc'' = False"
    "list_all (isRadixDigit 10) ''0x18BCFE56800'' = False"
    by (simp_all add: isRadixDigit_def digitValue_def)
  from boundary garbage hex nondigit show ?thesis
    by (simp add: atob_examples parseInt_examples maxAge_def)
qed

section \<open>Image requests answered from the cache\<close>

text \<open>
  C3, as the code has it. For a request of the image class for which the image tier holds
  a matching entry, \<^verbatim>\<open>caches.match\<close> finds an entry, the handler answers with it, and the only
  effect is that one cache lookup: \<^verbatim>\<open>isAuthenticated\<close> is not called, nothing is fetched and
  nothing is written. The store is therefore unchanged, and handling the same request again,
  at any later time and whatever the network does, gives the same response and effects.
  The entry returned is the first match over all tiers in creation order; it is the image
  tier's own entry when no other tier matches the request.
\<close>

theorem image_cache_hit:
  assumes "classify r = ProtectedImage"
    and "tierMatch store IMAGES_CACHE r = Some entry"
  shows "\<exists>cached. cachesMatch store r = Some cached
    \<and> handleFetch loc now net store r = (Responded cached, [CacheMatch r])
    \<and> settle store (snd (handleFetch loc now net store r)) = store
    \<and> handleFetch loc now' net' (settle store (snd (handleFetch loc now net store r))) r
        = handleFetch loc now net store r
    \<and> ((\<forall>(n, c) \<in> set store. n \<noteq> IMAGES_CACHE \<longrightarrow> cacheMatch c r = None)
         \<longrightarrow> cached = entry)"
proof -
  from assms(2) obtain cached where hit: "cachesMatch store r = Some cached"
    using tier_hit_caches_hit by blast
  have h: "handleFetch l t n store r = (Responded cached, [CacheMatch r])" for l t n
    using assms(1) hit by (rule image_hit)
  have only: "cached = entry"
    if "\<forall>(n, c) \<in> set store. n \<noteq> IMAGES_CACHE \<longrightarrow> cacheMatch c r = None"
    using tier_hit_only [OF assms(2) that] hit by simp
  show ?thesis
    using hit only by (simp add: h settle_no_put)
qed

text \<open>
  A store whose image tier alone holds the picture answers with that entry while the
  network is down.
\<close>

theorem image_cache_hit_witness:
  "classify heroImageRequest = ProtectedImage
   \<and> tierMatch imageTierStore IMAGES_CACHE heroImageRequest = Some heroImageCopy
   \<and> handleFetch siteLocation 1700000000500 offline imageTierStore heroImageRequest
       = (Responded heroImageCopy, [CacheMatch heroImageRequest])"
proof -
  have c: "classify heroImageRequest = ProtectedImage"
    by (simp add: classify_def isStaticAsset_def isImageRequest_def heroImageRequest_def
        STATIC_ASSETS_def endsWith_def suffix_to_prefix)
  have t: "tierMatch imageTierStore IMAGES_CACHE heroImageRequest = Some heroImageCopy"
    by (simp add: tierMatch_def imageTierStore_def IMAGES_CACHE_def STATIC_CACHE_def
        requestMatches_def heroImageRequest_def)
  have o: "\<forall>(n, c) \<in> set imageTierStore. n \<noteq> IMAGES_CACHE \<longrightarrow> cacheMatch c heroImageRequest = None"
    by (simp add: imageTierStore_def)
  from image_cache_hit [OF c t, of siteLocation 1700000000500 offline] o
  have "handleFetch siteLocation 1700000000500 offline imageTierStore heroImageRequest
       = (Responded heroImageCopy, [CacheMatch heroImageRequest])"
    by auto
  with c t show ?thesis by blast
qed

text \<open>
  C3 as it is worded promises the image tier's entry. \<open>twoTierStore\<close> is the store after
  a page has shown the picture and a script has then fetched the same URL
  (\<open>stores_reachable\<close>): the static tier, created at installation, holds the script's
  copy, the image tier holds the page's copy, and the handler answers the next image request
  with the static tier's copy.
\<close>

theorem image_tier_entry_counterexample:
  "classify heroImageRequest = ProtectedImage
   \<and> tierMatch twoTierStore IMAGES_CACHE heroImageRequest = Some heroImageCopy
   \<and> fst (handleFetch siteLocation 1700000000500 offline twoTierStore heroImageRequest)
       = Responded heroStaticCopy
   \<and> heroStaticCopy \<noteq> heroImageCopy"
proof -
  have c: "classify heroImageRequest = ProtectedImage"
    by (simp add: classify_def isStaticAsset_def isImageRequest_def heroImageRequest_def
        STATIC_ASSETS_def endsWith_def suffix_to_prefix)
  have t: "tierMatch twoTierStore IMAGES_CACHE heroImageRequest = Some heroImageCopy"
    by (simp add: tierMatch_def twoTierStore_def IMAGES_CACHE_def STATIC_CACHE_def
        requestMatches_def heroImageRequest_def)
  have m: "cachesMatch twoTierStore heroImageRequest = Some heroStaticCopy"
    by (simp add: twoTierStore_def requestMatches_def heroImageRequest_def
        heroScriptRequest_def)
  have d: "heroStaticCopy \<noteq> heroImageCopy"
    by (simp add: heroStaticCopy_def heroImageCopy_def)
  from c t d image_hit [OF c m] show ?thesis by simp
qed

section \<open>Direct navigation to an image path\<close>

text \<open>
  C4, as the code has it. A request that matches no static asset, whose URL contains
  \<^verbatim>\<open>/images/\<close> and that misses the cache is answered with the built 403 HTML response
  carrying \<^verbatim>\<open>X-Protection-Reason: Direct navigation blocked\<close> when its mode is \<^verbatim>\<open>navigate\<close>, or
  when it has no \<^verbatim>\<open>X-Protected-Image\<close> header and an empty destination. The only effect is
  the cache lookup: \<^verbatim>\<open>isAuthenticated\<close> is not called and nothing is fetched.
\<close>

theorem direct_navigation_blocked:
  assumes "\<not> isStaticAsset r"
    and "includesStr (url r) ''/images/''"
    and "cachesMatch store r = None"
    and "mode r = ''navigate''
         \<or> (headersGet r ''X-Protected-Image'' = None \<and> destination r = [])"
  shows "classify r = ProtectedImage
    \<and> handleFetch loc now net store r = (Responded directNavigationBlocked, [CacheMatch r])
    \<and> status directNavigationBlocked = 403
    \<and> map_of (respHeaders directNavigationBlocked) ''Content-Type'' = Some ''text/html''
    \<and> map_of (respHeaders directNavigationBlocked) ''X-Protection-Reason''
        = Some ''Direct navigation blocked''"
proof -
  from assms(1,2) have c: "classify r = ProtectedImage"
    by (simp add: classify_cases isImageRequest_def)
  from assms(4) have d: "isDirectNavigation r"
    by (auto simp: isDirectNavigation_def truthy_def)
  from assms(1,2,3) d
  have "handleFetch loc now net store r = (Responded directNavigationBlocked, [CacheMatch r])"
    by (simp add: handleFetch_def isImageRequest_def imageStrategy_def)
  with c show ?thesis
    by (simp add: directNavigationBlocked_def)
qed

text \<open>
  Typing the URL of a picture into the address bar.
\<close>

theorem direct_navigation_blocked_witness:
  "\<not> isStaticAsset typedImageRequest
   \<and> includesStr (url typedImageRequest) ''/images/''
   \<and> cachesMatch [] typedImageRequest = None
   \<and> mode typedImageRequest = ''navigate''
   \<and> handleFetch siteLocation 1700000000500 online [] typedImageRequest
       = (Responded directNavigationBlocked, [CacheMatch typedImageRequest])"
proof -
  have s: "\<not> isStaticAsset typedImageRequest"
    by (simp add: isStaticAsset_def typedImageRequest_def STATIC_ASSETS_def endsWith_def
        suffix_to_prefix)
  have i: "includesStr (url typedImageRequest) ''/images/''"
    by (simp add: typedImageRequest_def)
  have m: "cachesMatch [] typedImageRequest = None" by simp
  have n: "mode typedImageRequest = ''navigate''"
    by (simp add: typedImageRequest_def)
  from direct_navigation_blocked [OF s i m, of siteLocation 1700000000500 online] n
  have "handleFetch siteLocation 1700000000500 online [] typedImageRequest
       = (Responded directNavigationBlocked, [CacheMatch typedImageRequest])"
    by blast
  with s i m n show ?thesis by blast
qed

text \<open>
  C4 as it is worded covers every request on an image path. A navigation to
  \<^verbatim>\<open>/images/index.html\<close> ends with a static asset's name, is handled by the static strategy,
  and is fetched from the network.
\<close>

theorem image_path_static_counterexample:
  "includesStr (url imagesIndexPageRequest) ''/images/''
   \<and> cachesMatch [] imagesIndexPageRequest = None
   \<and> mode imagesIndexPageRequest = ''navigate''
   \<and> handleFetch siteLocation 1700000000500 online [] imagesIndexPageRequest
       = (Responded originOk,
          [CacheMatch imagesIndexPageRequest, NetFetch imagesIndexPageRequest,
           CachePut STATIC_CACHE imagesIndexPageRequest originOk])
   \<and> originOk \<noteq> directNavigationBlocked"
proof -
  have s: "isStaticAsset imagesIndexPageRequest"
    by (simp add: isStaticAsset_def imagesIndexPageRequest_def STATIC_ASSETS_def endsWith_def
        suffix_to_prefix)
  have i: "includesStr (url imagesIndexPageRequest) ''/images/''"
    by (simp add: imagesIndexPageRequest_def)
  have n: "mode imagesIndexPageRequest = ''navigate''"
    by (simp add: imagesIndexPageRequest_def)
  have d: "originOk \<noteq> directNavigationBlocked"
    by (simp add: originOk_def directNavigationBlocked_def)
  have h: "handleFetch siteLocation 1700000000500 online [] imagesIndexPageRequest
       = (Responded originOk,
          [CacheMatch imagesIndexPageRequest, NetFetch imagesIndexPageRequest,
           CachePut STATIC_CACHE imagesIndexPageRequest originOk])"
    using s by (simp add: handleFetch_def staticStrategy_def online_def)
  from i n d h show ?thesis by simp
qed

section \<open>Failure of an image fetch\<close>

text \<open>
  C5 at a concrete request. An ordinary in-page image request on the production site, with
  an empty cache and the network down, passes the gate and reaches \<^verbatim>\<open>fetch\<close>. The \<^verbatim>\<open>catch\<close>
  returns the promise of \<^verbatim>\<open>caches.match\<close>, which resolves to \<^verbatim>\<open>undefined\<close>: the page receives
  no response at all, and the 404 response is never built.
\<close>

theorem image_fetch_failure_without_placeholder:
  "handleFetch siteLocation 1700000000500 offline [] galleryImageRequest
     = (Faulted NotAResponse,
        [CacheMatch galleryImageRequest, PolicyCheck galleryImageRequest,
         NetFetch galleryImageRequest, CacheMatch (placeholderRequest siteLocation)])"
proof -
  have s: "\<not> isStaticAsset galleryImageRequest"
    by (simp add: isStaticAsset_def galleryImageRequest_def STATIC_ASSETS_def endsWith_def
        suffix_to_prefix)
  have i: "isImageRequest galleryImageRequest"
    by (simp add: isImageRequest_def galleryImageRequest_def)
  have d: "\<not> isDirectNavigation galleryImageRequest"
    by (simp add: isDirectNavigation_def galleryImageRequest_def)
  have v: "hasValidReferer siteLocation galleryImageRequest"
    by (simp add: hasValidReferer_def referer_header headersGet_names galleryImageRequest_def
        siteLocation_def startsWith_def)
  have u: "\<not> isDownloadAttempt (userAgent galleryImageRequest)"
    by (simp add: isDownloadAttempt_def userAgent_def jsOr_def truthy_def headersGet_names
        galleryImageRequest_def)
  have l: "\<not> isLocalhost siteLocation"
    by (simp add: isLocalhost_def siteLocation_def)
  have a: "isAuthenticated siteLocation 1700000000500 galleryImageRequest"
    using l u v by (simp add: isAuthenticated_def galleryImageRequest_def)
  have f: "imageFetch siteLocation offline [] galleryImageRequest
    = (Faulted NotAResponse,
       [NetFetch galleryImageRequest, CacheMatch (placeholderRequest siteLocation)])"
    by (simp add: image_fetch_failure offline_def)
  show ?thesis
    using s i d a by (simp add: handleFetch_def imageStrategy_def f)
qed

section \<open>Referer validity\<close>

text \<open>
  C6, as the code has it. \<open>hasValidReferer\<close> holds exactly when the referer header is
  present and not empty and starts with the serving origin, or contains \<^verbatim>\<open>localhost\<close>, or
  starts with an entry of the allowed-origin list. In particular every referer that extends
  an allowed origin is valid.
\<close>

theorem hasValidReferer_prefix:
  "(hasValidReferer loc r \<longleftrightarrow>
      (\<exists>ref. headersGet r ''Referer'' = Some ref \<and> ref \<noteq> []
         \<and> (startsWith ref (origin loc) \<or> includesStr ref ''localhost''
              \<or> (\<exists>allowed \<in> set ALLOWED_ORIGINS. startsWith ref allowed))))
   \<and> (\<forall>ref allowed. headersGet r ''Referer'' = Some ref \<and> allowed \<in> set ALLOWED_ORIGINS
          \<and> startsWith ref allowed \<longrightarrow> hasValidReferer loc r)"
proof -
  have nonempty: "ref \<noteq> []"
    if "allowed \<in> set ALLOWED_ORIGINS" and "startsWith ref allowed" for ref allowed
    using that by (auto simp: ALLOWED_ORIGINS_def startsWith_def)
  have char: "hasValidReferer loc r \<longleftrightarrow>
      (\<exists>ref. headersGet r ''Referer'' = Some ref \<and> ref \<noteq> []
         \<and> (startsWith ref (origin loc) \<or> includesStr ref ''localhost''
              \<or> (\<exists>allowed \<in> set ALLOWED_ORIGINS. startsWith ref allowed)))"
    by (cases "headersGet r ''Referer''")
      (simp_all add: hasValidReferer_def referer_header list_ex_iff)
  show ?thesis
    unfolding char using nonempty by blast
qed

text \<open>
  A referer on the second allowed origin, one path below it.
\<close>

theorem hasValidReferer_prefix_witness:
  "headersGet portfolioImageRequest ''Referer''
     = Some ''https://avinashbhorphotography.github.io/portfolio''
   \<and> ''https://avinashbhorphotography.github.io'' \<in> set ALLOWED_ORIGINS
   \<and> startsWith ''https://avinashbhorphotography.github.io/portfolio''
        ''https://avinashbhorphotography.github.io''
   \<and> hasValidReferer siteLocation portfolioImageRequest"
proof -
  have a: "headersGet portfolioImageRequest ''Referer''
     = Some ''https://avinashbhorphotography.github.io/portfolio''"
    by (simp add: headersGet_names portfolioImageRequest_def)
  have b: "''https://avinashbhorphotography.github.io'' \<in> set ALLOWED_ORIGINS"
    by (simp add: ALLOWED_ORIGINS_def)
  have c: "startsWith ''https://avinashbhorphotography.github.io/portfolio''
        ''https://avinashbhorphotography.github.io''"
    by (simp add: startsWith_def)
  from hasValidReferer_prefix [of siteLocation portfolioImageRequest] a b c
  have "hasValidReferer siteLocation portfolioImageRequest" by blast
  with a b c show ?thesis by blast
qed

text \<open>
  C6 as it is worded asks for a referer equal to an allowed origin. Served from the
  \<^verbatim>\<open>github.io\<close> origin, the referer \<^verbatim>\<open>https://www.abphotostudio.in/gallery\<close> neither starts with
  the serving origin, nor contains \<^verbatim>\<open>localhost\<close>, nor equals an allowed origin, and is valid.
\<close>

theorem referer_exact_match_counterexample:
  "headersGet galleryImageRequest ''Referer'' = Some ''https://www.abphotostudio.in/gallery''
   \<and> \<not> startsWith ''https://www.abphotostudio.in/gallery'' (origin pagesLocation)
   \<and> \<not> includesStr ''https://www.abphotostudio.in/gallery'' ''localhost''
   \<and> ''https://www.abphotostudio.in/gallery'' \<notin> set ALLOWED_ORIGINS
   \<and> hasValidReferer pagesLocation galleryImageRequest"
  by (simp add: headersGet_names galleryImageRequest_def pagesLocation_def startsWith_def
      ALLOWED_ORIGINS_def hasValidReferer_def referer_header)

section \<open>Generic requests\<close>

text \<open>
  C7, as the code has it. A request of the generic class is fetched from the network first.
  A response that is \<^verbatim>\<open>ok\<close> and of type \<^verbatim>\<open>basic\<close> is returned after a detached write of a
  copy into the static tier \<^verbatim>\<open>static-v11\<close> has been started; any other response is returned
  without a write. On a transport failure the handler returns the first entry matching the
  request over all tiers, and the 503 plain-text response when there is none.
\<close>

theorem generic_network_first:
  assumes "classify r = Generic"
  shows "(\<forall>resp. net r = Some resp \<and> ok resp \<and> respType resp = ''basic'' \<longrightarrow>
            handleFetch loc now net store r
              = (Responded resp, [NetFetch r, CachePut STATIC_CACHE r resp]))
    \<and> (\<forall>resp. net r = Some resp \<and> \<not> (ok resp \<and> respType resp = ''basic'') \<longrightarrow>
            handleFetch loc now net store r = (Responded resp, [NetFetch r]))
    \<and> (\<forall>cached. net r = None \<and> cachesMatch store r = Some cached \<longrightarrow>
            handleFetch loc now net store r
              = (Responded cached, [NetFetch r, CacheMatch r]))
    \<and> (net r = None \<and> cachesMatch store r = None \<longrightarrow>
            handleFetch loc now net store r
              = (Responded offlineContent, [NetFetch r, CacheMatch r]))
    \<and> status offlineContent = 503
    \<and> respHeaders offlineContent = [(''Content-Type'', ''text/plain'')]"
proof -
  from assms have g: "\<not> isStaticAsset r" "\<not> isImageRequest r" "\<not> isDynamicRequest r"
    by (simp_all add: classify_cases)
  then have h: "handleFetch loc now net store r = genericStrategy net store r"
    by (simp add: handleFetch_def)
  show ?thesis
    unfolding h by (simp add: genericStrategy_def offlineContent_def)
qed

text \<open>
  A script's request for a picture, with the network up and an empty store.
\<close>

theorem generic_network_first_witness:
  "classify heroScriptRequest = Generic
   \<and> online heroScriptRequest = Some originOk
   \<and> ok originOk \<and> respType originOk = ''basic''
   \<and> handleFetch siteLocation 1700000000500 online [] heroScriptRequest
       = (Responded originOk, [NetFetch heroScriptRequest,
            CachePut STATIC_CACHE heroScriptRequest originOk])"
proof -
  have c: "classify heroScriptRequest = Generic"
    by (simp add: classify_def isStaticAsset_def isImageRequest_def isDynamicRequest_def
        heroScriptRequest_def STATIC_ASSETS_def endsWith_def suffix_to_prefix)
  have n: "online heroScriptRequest = Some originOk"
    by (simp add: online_def)
  have o: "ok originOk \<and> respType originOk = ''basic''"
    by (simp add: ok_def originOk_def)
  from generic_network_first [OF c, of online siteLocation 1700000000500 "[]"] n o
  have "handleFetch siteLocation 1700000000500 online [] heroScriptRequest
       = (Responded originOk, [NetFetch heroScriptRequest,
            CachePut STATIC_CACHE heroScriptRequest originOk])"
    by blast
  with c n o show ?thesis by blast
qed

text \<open>
  C7 as it is worded reads and writes one catch-all tier. In \<open>imageTierStore\<close>, the store
  after a page has shown the picture, neither \<^verbatim>\<open>image-protection-v11\<close> nor \<^verbatim>\<open>static-v11\<close> holds
  an entry for the URL; with the network down a script's request for it is answered with
  the image tier's entry instead of 503. With the network up the copy goes to
  \<^verbatim>\<open>static-v11\<close>, the tier of the static assets.
\<close>

theorem catch_all_tier_counterexample:
  "classify heroScriptRequest = Generic
   \<and> tierMatch imageTierStore CACHE_NAME heroScriptRequest = None
   \<and> tierMatch imageTierStore STATIC_CACHE heroScriptRequest = None
   \<and> handleFetch siteLocation 1700000000500 offline imageTierStore heroScriptRequest
       = (Responded heroImageCopy, [NetFetch heroScriptRequest, CacheMatch heroScriptRequest])
   \<and> heroImageCopy \<noteq> offlineContent
   \<and> snd (handleFetch siteLocation 1700000000500 online [] heroScriptRequest)
       = [NetFetch heroScriptRequest, CachePut STATIC_CACHE heroScriptRequest originOk]
   \<and> STATIC_CACHE \<noteq> CACHE_NAME"
proof -
  have g: "\<not> isStaticAsset heroScriptRequest" "\<not> isImageRequest heroScriptRequest"
    "\<not> isDynamicRequest heroScriptRequest"
    by (simp_all add: isStaticAsset_def isImageRequest_def isDynamicRequest_def
        heroScriptRequest_def STATIC_ASSETS_def endsWith_def suffix_to_prefix)
  then have c: "classify heroScriptRequest = Generic"
    by (simp add: classify_cases)
  have t: "tierMatch imageTierStore CACHE_NAME heroScriptRequest = None"
    "tierMatch imageTierStore STATIC_CACHE heroScriptRequest = None"
    by (simp_all add: tierMatch_def imageTierStore_def CACHE_NAME_def STATIC_CACHE_def
        IMAGES_CACHE_def)
  have m: "cachesMatch imageTierStore heroScriptRequest = Some heroImageCopy"
    by (simp add: imageTierStore_def requestMatches_def heroScriptRequest_def
        heroImageRequest_def)
  have h: "handleFetch siteLocation 1700000000500 offline imageTierStore heroScriptRequest
       = (Responded heroImageCopy, [NetFetch heroScriptRequest, CacheMatch heroScriptRequest])"
    using g m by (simp add: handleFetch_def genericStrategy_def offline_def)
  have d: "heroImageCopy \<noteq> offlineContent"
    by (simp add: heroImageCopy_def offlineContent_def)
  have w: "snd (handleFetch siteLocation 1700000000500 online [] heroScriptRequest)
       = [NetFetch heroScriptRequest, CachePut STATIC_CACHE heroScriptRequest originOk]"
    using g by (simp add: handleFetch_def genericStrategy_def online_def ok_def originOk_def)
  have n: "STATIC_CACHE \<noteq> CACHE_NAME"
    by (simp add: STATIC_CACHE_def CACHE_NAME_def)
  from c t h d w n show ?thesis by simp
qed

section \<open>Dynamic requests\<close>

text \<open>
  C8. A request of the dynamic class (not a static asset, not an image request, and with
  a URL containing \<^verbatim>\<open>/api/\<close> or a method other than \<^verbatim>\<open>GET\<close>) is fetched from the network and
  nothing else happens: no cache is read or written. The response of the network is
  returned as it is; on a transport failure the answer is the 503 response with the JSON
  body \<^verbatim>\<open>{"error":"Network unavailable"}\<close> and \<^verbatim>\<open>Content-Type: application/json\<close>.
\<close>

theorem dynamic_network_only:
  assumes "classify r = Dynamic"
  shows \<open>(includesStr (url r) ''/api/'' \<or> httpMethod r \<noteq> ''GET'')
    \<and> snd (handleFetch loc now net store r) = [NetFetch r]
    \<and> settle store (snd (handleFetch loc now net store r)) = store
    \<and> (\<forall>resp. net r = Some resp \<longrightarrow>
          fst (handleFetch loc now net store r) = Responded resp)
    \<and> (net r = None \<longrightarrow>
          fst (handleFetch loc now net store r) = Responded networkUnavailable)
    \<and> status networkUnavailable = 503
    \<and> body networkUnavailable = ''{"error":"Network unavailable"}''
    \<and> respHeaders networkUnavailable = [(''Content-Type'', ''application/json'')]\<close>
proof -
  from assms have d: "\<not> isStaticAsset r" "\<not> isImageRequest r" "isDynamicRequest r"
    by (simp_all add: classify_cases)
  then have h: "handleFetch loc now net store r = dynamicStrategy net r"
    by (simp add: handleFetch_def)
  have t: "snd (dynamicStrategy net r) = [NetFetch r]"
    by (simp add: dynamicStrategy_def split: option.splits)
  show ?thesis
    unfolding h t using d(3)
    by (simp add: dynamicStrategy_def isDynamicRequest_def networkUnavailable_def
        settle_no_put)
qed

text \<open>
  A \<^verbatim>\<open>POST\<close> to \<^verbatim>\<open>/api/contact\<close> while the network is down.
\<close>

theorem dynamic_network_only_witness:
  \<open>classify contactRequest = Dynamic
   \<and> handleFetch siteLocation 1700000000500 offline [] contactRequest
       = (Responded networkUnavailable, [NetFetch contactRequest])
   \<and> body networkUnavailable = ''{"error":"Network unavailable"}''\<close>
proof -
  have c: "classify contactRequest = Dynamic"
    by (simp add: classify_def isStaticAsset_def isImageRequest_def isDynamicRequest_def
        contactRequest_def STATIC_ASSETS_def endsWith_def suffix_to_prefix)
  have n: "offline contactRequest = None"
    by (simp add: offline_def)
  from dynamic_network_only [OF c, of siteLocation 1700000000500 offline "[]"] n
  have "snd (handleFetch siteLocation 1700000000500 offline [] contactRequest)
          = [NetFetch contactRequest]"
    and "fst (handleFetch siteLocation 1700000000500 offline [] contactRequest)
          = Responded networkUnavailable"
    and \<open>body networkUnavailable = ''{"error":"Network unavailable"}''\<close>
    by blast+
  with c show ?thesis
    by (simp add: prod_eq_iff)
qed

section \<open>Static assets take precedence\<close>

text \<open>
  C9. A request whose URL ends with an entry of \<open>STATIC_ASSETS\<close> is classified as a static
  asset and handled by the static cache-first strategy, whether or not it is also an image
  request: a cached entry is returned as it is, and on a miss the response of the network
  is returned after a detached write into the static tier.
\<close>

theorem static_precedence:
  assumes "asset \<in> set STATIC_ASSETS" and "endsWith (url r) asset"
  shows "classify r = StaticAsset
    \<and> handleFetch loc now net store r = staticStrategy net store r
    \<and> (\<forall>cached. cachesMatch store r = Some cached \<longrightarrow>
          handleFetch loc now net store r = (Responded cached, [CacheMatch r]))
    \<and> (\<forall>resp. cachesMatch store r = None \<and> net r = Some resp \<longrightarrow>
          handleFetch loc now net store r
            = (Responded resp, [CacheMatch r, NetFetch r, CachePut STATIC_CACHE r resp]))"
proof -
  from assms have s: "isStaticAsset r"
    unfolding isStaticAsset_iff by blast
  then have h: "handleFetch loc now net store r = staticStrategy net store r"
    by (simp add: handleFetch_def)
  from s have c: "classify r = StaticAsset"
    by (simp add: classify_cases)
  show ?thesis
    unfolding h using c by (simp add: staticStrategy_def)
qed

text \<open>
  The directory URL \<^verbatim>\<open>/images/\<close>, requested as an image, is both on the image path and a
  static asset.
\<close>

theorem static_precedence_witness:
  "''/'' \<in> set STATIC_ASSETS
   \<and> endsWith (url imagesIndexRequest) ''/''
   \<and> isImageRequest imagesIndexRequest
   \<and> classify imagesIndexRequest = StaticAsset
   \<and> handleFetch siteLocation 1700000000500 online [] imagesIndexRequest
       = (Responded originOk,
          [CacheMatch imagesIndexRequest, NetFetch imagesIndexRequest,
           CachePut STATIC_CACHE imagesIndexRequest originOk])"
proof -
  have a: "''/'' \<in> set STATIC_ASSETS"
    by (simp add: STATIC_ASSETS_def)
  have b: "endsWith (url imagesIndexRequest) ''/''"
    by (simp add: imagesIndexRequest_def endsWith_def suffix_to_prefix)
  have i: "isImageRequest imagesIndexRequest"
    by (simp add: isImageRequest_def imagesIndexRequest_def)
  have m: "cachesMatch [] imagesIndexRequest = None \<and> online imagesIndexRequest = Some originOk"
    by (simp add: online_def)
  from static_precedence [OF a b, of siteLocation 1700000000500 online "[]"] a b i m
  show ?thesis by blast
qed

section \<open>Images outside the image path\<close>

text \<open>
  C10. A request of the image class whose URL does not contain \<^verbatim>\<open>/images/\<close>, on a host that
  is not a local-development host, with a user agent matching no signature and no cached
  entry, passes \<^verbatim>\<open>isAuthenticated\<close> and is fetched from the network, whatever its headers
  are.
\<close>

theorem external_image_unconditional:
  assumes "classify r = ProtectedImage"
    and "\<not> includesStr (url r) ''/images/''"
    and "\<not> isLocalhost loc"
    and "\<not> isDownloadAttempt (userAgent r)"
    and "cachesMatch store r = None"
  shows "isAuthenticated loc now r
    \<and> handleFetch loc now net store r
        = (fst (imageFetch loc net store r),
           CacheMatch r # PolicyCheck r # snd (imageFetch loc net store r))
    \<and> NetFetch r \<in> set (snd (handleFetch loc now net store r))
    \<and> (\<forall>resp. net r = Some resp \<longrightarrow>
          fst (handleFetch loc now net store r) = Responded resp)"
proof -
  from assms(2,3,4) have a: "isAuthenticated loc now r"
    by (simp add: isAuthenticated_def)
  from assms(1) have "\<not> isStaticAsset r" "isImageRequest r"
    by (simp_all add: classify_cases)
  with assms(2,5) a
  have h: "handleFetch loc now net store r
        = (fst (imageFetch loc net store r),
           CacheMatch r # PolicyCheck r # snd (imageFetch loc net store r))"
    by (simp add: handleFetch_def imageStrategy_def)
  have f: "NetFetch r \<in> set (snd (imageFetch loc net store r))"
    by (simp add: imageFetch_def split: option.splits)
  have s: "fst (imageFetch loc net store r) = Responded resp" if "net r = Some resp" for resp
    using that by (simp add: imageFetch_def)
  from a f s show ?thesis
    unfolding h by simp
qed

text \<open>
  A picture on another host, requested by an image element without any header.
\<close>

theorem external_image_unconditional_witness:
  "classify unsplashRequest = ProtectedImage
   \<and> \<not> includesStr (url unsplashRequest) ''/images/''
   \<and> \<not> isLocalhost siteLocation
   \<and> \<not> isDownloadAttempt (userAgent unsplashRequest)
   \<and> cachesMatch [] unsplashRequest = None
   \<and> headers unsplashRequest = Map.empty
   \<and> isAuthenticated siteLocation 1700000000500 unsplashRequest
   \<and> fst (handleFetch siteLocation 1700000000500 online [] unsplashRequest)
       = Responded originOk"
proof -
  have c: "classify unsplashRequest = ProtectedImage"
    by (simp add: classify_def isStaticAsset_def isImageRequest_def unsplashRequest_def
        STATIC_ASSETS_def endsWith_def suffix_to_prefix)
  have i: "\<not> includesStr (url unsplashRequest) ''/images/''"
    by (simp add: unsplashRequest_def)
  have l: "\<not> isLocalhost siteLocation"
    by (simp add: isLocalhost_def siteLocation_def)
  have d: "\<not> isDownloadAttempt (userAgent unsplashRequest)"
    by (simp add: isDownloadAttempt_def userAgent_def jsOr_def truthy_def headersGet_names
        unsplashRequest_def)
  have m: "cachesMatch [] unsplashRequest = None" by simp
  have e: "headers unsplashRequest = Map.empty"
    by (simp add: unsplashRequest_def)
  have n: "online unsplashRequest = Some originOk"
    by (simp add: online_def)
  from external_image_unconditional [OF c i l d m, of 1700000000500 online] n
  have "isAuthenticated siteLocation 1700000000500 unsplashRequest"
    and "fst (handleFetch siteLocation 1700000000500 online [] unsplashRequest)
       = Responded originOk"
    by blast+
  with c i l d m e show ?thesis by blast
qed

end
